theory Spec2Isabelle
  imports Main "HOL-Library.Sublist" "HOL-Library.AList" "HOL-Library.Word"
begin

section \<open>Text and the file system\<close>

text \<open>
  The scripts work on the manifest \<^verbatim>\<open>TouchGrass.xcodeproj/project.pbxproj\<close> as raw text.
  A text is a \<^typ>\<open>string\<close>: the content of a file opened in text mode, so that the only
  line terminator is the character 0x0A. The model is about ASCII text: a character of
  code 0x80 and above is in none of the character classes below.
\<close>

abbreviation NL :: char where "NL \<equiv> CHR 0x0A"
abbreviation TAB :: char where "TAB \<equiv> CHR 0x09"

text \<open>Python's \<^verbatim>\<open>needle in line\<close> on strings.\<close>

fun str_in :: "string \<Rightarrow> string \<Rightarrow> bool" where
  "str_in n [] = (n = [])"
| "str_in n (c # cs) = (prefix n (c # cs) \<or> str_in n cs)"

text \<open>
  \<^verbatim>\<open>f.readlines()\<close>: the text cut after every line terminator; the terminator stays
  with its line, and a last line without terminator is a line too.
\<close>

fun readlines :: "string \<Rightarrow> string list" where
  "readlines [] = []"
| "readlines (c # cs) =
     (if c = NL then [c] # readlines cs
      else (case readlines cs of [] \<Rightarrow> [[c]] | l # ls \<Rightarrow> (c # l) # ls))"

text \<open>
  The files of the working directory, by path, and what a run did to the world: the
  writes, in order, and the messages printed.
\<close>

datatype message =
    Removed_references nat string
  | No_references_found string
  | Project_updated nat nat
  | Already_in_sync
  | Already_in_project string
  | Adding string
  | Added string
  | File_not_found string
  | Project_file_rebuilt
  | Project_file_cleaned

datatype io_event = Wrote string string | Printed message

record world =
  files :: "string \<rightharpoonup> string"
  trace :: "io_event list"

datatype error = FileNotFoundError string | SystemExit nat

definition read_file :: "world \<Rightarrow> string \<Rightarrow> error + string" where
  "read_file w p = (case files w p of None \<Rightarrow> Inl (FileNotFoundError p) | Some c \<Rightarrow> Inr c)"

definition write_file :: "world \<Rightarrow> string \<Rightarrow> string \<Rightarrow> world" where
  "write_file w p c = w\<lparr>files := (files w)(p \<mapsto> c), trace := trace w @ [Wrote p c]\<rparr>"

definition print :: "world \<Rightarrow> message \<Rightarrow> world" where
  "print w m = w\<lparr>trace := trace w @ [Printed m]\<rparr>"

definition project_file :: string where
  "project_file = ''TouchGrass.xcodeproj/project.pbxproj''"

section \<open>remove_from_xcode.py\<close>

text \<open>
  The loop of \<^verbatim>\<open>remove_file_from_project\<close> over the lines, with its flag
  \<^verbatim>\<open>skip_next\<close>: the result is \<^verbatim>\<open>filtered_lines\<close> and \<^verbatim>\<open>removed_count\<close>.
\<close>

fun filter_lines :: "string \<Rightarrow> bool \<Rightarrow> string list \<Rightarrow> string list \<times> nat" where
  "filter_lines file_name skip_next [] = ([], 0)"
| "filter_lines file_name skip_next (line # lines) =
     (if str_in file_name line then
        (let skip' = (if CHR ''{'' \<in> set line \<and> CHR ''}'' \<notin> set line then True else skip_next);
             (kept, removed_count) = filter_lines file_name skip' lines
         in (kept, Suc removed_count))
      else if skip_next then
        filter_lines file_name (if CHR ''}'' \<in> set line then False else skip_next) lines
      else
        (let (kept, removed_count) = filter_lines file_name skip_next lines
         in (line # kept, removed_count)))"



section \<open>Lines\<close>




section \<open>Regular expressions\<close>

text \<open>
  The scripts edit the text with Python's \<^verbatim>\<open>re\<close>. A pattern is modelled the way the
  backtracking matcher runs it: each piece of the pattern takes the text at the current
  position and a continuation, the rest of the pattern, and returns the first success in
  the matcher's own order (a greedy repetition tries the longest run first, a lazy one the
  shortest). A repetition hands the text it consumed to its continuation, which is how a
  group is captured and how the text of the whole match is put together. A whole pattern
  returns what it captured and the text after the match.
\<close>

definition lit :: "string \<Rightarrow> (string \<Rightarrow> 'a option) \<Rightarrow> string \<Rightarrow> 'a option" where
  "lit l k s = (if prefix l s then k (drop (length l) s) else None)"

text \<open>\<^verbatim>\<open>X*\<close> for a character class \<^verbatim>\<open>X\<close>.\<close>

fun star :: "(char \<Rightarrow> bool) \<Rightarrow> (string \<Rightarrow> string \<Rightarrow> 'a option) \<Rightarrow> string \<Rightarrow> 'a option" where
  "star p k [] = k [] []"
| "star p k (c # cs) =
     (case (if p c then star p (\<lambda>g. k (c # g)) cs else None) of
        Some r \<Rightarrow> Some r
      | None \<Rightarrow> k [] (c # cs))"

text \<open>\<^verbatim>\<open>X+\<close>.\<close>

definition plus :: "(char \<Rightarrow> bool) \<Rightarrow> (string \<Rightarrow> string \<Rightarrow> 'a option) \<Rightarrow> string \<Rightarrow> 'a option" where
  "plus p k s =
     (case s of [] \<Rightarrow> None | c # cs \<Rightarrow> if p c then star p (\<lambda>g. k (c # g)) cs else None)"

text \<open>\<^verbatim>\<open>X*?\<close>.\<close>

fun lazy_star :: "(char \<Rightarrow> bool) \<Rightarrow> (string \<Rightarrow> string \<Rightarrow> 'a option) \<Rightarrow> string \<Rightarrow> 'a option" where
  "lazy_star p k [] = k [] []"
| "lazy_star p k (c # cs) =
     (case k [] (c # cs) of
        Some r \<Rightarrow> Some r
      | None \<Rightarrow> if p c then lazy_star p (\<lambda>g. k (c # g)) cs else None)"

text \<open>\<^verbatim>\<open>X{n}\<close>.\<close>

fun exactly :: "nat \<Rightarrow> (char \<Rightarrow> bool) \<Rightarrow> (string \<Rightarrow> string \<Rightarrow> 'a option) \<Rightarrow> string \<Rightarrow> 'a option" where
  "exactly 0 p k s = k [] s"
| "exactly (Suc n) p k [] = None"
| "exactly (Suc n) p k (c # cs) = (if p c then exactly n p (\<lambda>g. k (c # g)) cs else None)"

text \<open>\<^verbatim>\<open>c?\<close> for one character.\<close>

definition opt :: "char \<Rightarrow> (string \<Rightarrow> 'a option) \<Rightarrow> string \<Rightarrow> 'a option" where
  "opt c k s =
     (case (case s of [] \<Rightarrow> None | d # ds \<Rightarrow> if d = c then k ds else None) of
        Some r \<Rightarrow> Some r
      | None \<Rightarrow> k s)"

text \<open>
  \<^verbatim>\<open>re.finditer\<close> and \<^verbatim>\<open>re.findall\<close>: the matches from left to right, none overlapping
  another. A matcher \<open>m\<close> returns what a match at the start of the text gives, and the text
  after the match. Where the pattern fails the scan goes on one character; after an empty
  match too.
\<close>

fun finditer :: "(string \<Rightarrow> ('a \<times> string) option) \<Rightarrow> string \<Rightarrow> 'a list" where
  "finditer m [] = (case m [] of Some (x, rest) \<Rightarrow> [x] | None \<Rightarrow> [])"
| "finditer m (c # cs) =
     (case m (c # cs) of
        Some (x, rest) \<Rightarrow> x # finditer m (if length rest < length (c # cs) then rest else cs)
      | None \<Rightarrow> finditer m cs)"

text \<open>
  \<^verbatim>\<open>re.sub\<close>: every match is replaced, the text between the matches is kept. Here the
  matcher returns the replacement of the match it found.
\<close>

fun re_sub :: "(string \<Rightarrow> (string \<times> string) option) \<Rightarrow> string \<Rightarrow> string" where
  "re_sub m [] = (case m [] of Some (r, rest) \<Rightarrow> r | None \<Rightarrow> [])"
| "re_sub m (c # cs) =
     (case m (c # cs) of
        Some (r, rest) \<Rightarrow>
          (if length rest < length (c # cs) then r @ re_sub m rest else r @ c # re_sub m cs)
      | None \<Rightarrow> c # re_sub m cs)"

text \<open>\<^verbatim>\<open>re.search\<close>: the first match, if any.\<close>

fun re_search :: "(string \<Rightarrow> ('a \<times> string) option) \<Rightarrow> string \<Rightarrow> 'a option" where
  "re_search m [] = map_option fst (m [])"
| "re_search m (c # cs) =
     (case m (c # cs) of Some (x, rest) \<Rightarrow> Some x | None \<Rightarrow> re_search m cs)"

text \<open>\<^verbatim>\<open>s.replace(old, new)\<close>: every occurrence of \<open>old\<close>, from left to right.\<close>

definition replace :: "string \<Rightarrow> string \<Rightarrow> string \<Rightarrow> string" where
  "replace old new s = re_sub (lit old (\<lambda>rest. Some (new, rest))) s"

text \<open>The character classes \<^verbatim>\<open>\w\<close>, \<^verbatim>\<open>\s\<close> and \<^verbatim>\<open>[A-F0-9]\<close>, on ASCII.\<close>

definition is_word :: "char \<Rightarrow> bool" where
  "is_word c = (c \<in> set ''abcdefghijklmnopqrstuvwxyzABCDEFGHIJKLMNOPQRSTUVWXYZ0123456789_'')"

definition is_space :: "char \<Rightarrow> bool" where
  "is_space c =
     (c \<in> set [CHR '' '', TAB, NL, CHR 0x0B, CHR 0x0C, CHR 0x0D, CHR 0x1C, CHR 0x1D, CHR 0x1E, CHR 0x1F])"

definition is_hex_upper :: "char \<Rightarrow> bool" where
  "is_hex_upper c = (c \<in> set ''ABCDEF0123456789'')"

section \<open>Identifiers\<close>

text \<open>
  \<^verbatim>\<open>uuid.uuid4()\<close> is the scripts' only source of identifiers. A run is given the UUIDs
  it draws as 128-bit integers, the \<open>k\<close>-th draw being \<open>uuids k\<close>; a version 4 UUID has
  the version digit 4 and the variant bits 10, all other 122 bits are random.
\<close>

unbundle bit_operations_syntax

definition is_uuid4 :: "128 word \<Rightarrow> bool" where
  "is_uuid4 u = (take_bit 4 (drop_bit 76 u) = 4 \<and> take_bit 2 (drop_bit 62 u) = 2)"

definition hex_digit :: "nat \<Rightarrow> char" where
  "hex_digit d = ''0123456789abcdef'' ! d"

text \<open>\<^verbatim>\<open>'%032x' % u.int\<close>, which is \<^verbatim>\<open>u.hex\<close>.\<close>

definition hex32 :: "128 word \<Rightarrow> string" where
  "hex32 u = map (\<lambda>i. hex_digit (unat (take_bit 4 (drop_bit (4 * i) u)))) (rev [0..<32])"

text \<open>\<^verbatim>\<open>str(u)\<close>: the 32 digits in groups of 8, 4, 4, 4 and 12.\<close>

definition str_uuid :: "128 word \<Rightarrow> string" where
  "str_uuid u =
     (let h = hex32 u
      in take 8 h @ ''-'' @ take 4 (drop 8 h) @ ''-'' @ take 4 (drop 12 h) @ ''-'' @
         take 4 (drop 16 h) @ ''-'' @ drop 20 h)"

definition upper_char :: "char \<Rightarrow> char" where
  "upper_char c =
     (case map_of (zip ''abcdefghijklmnopqrstuvwxyz'' ''ABCDEFGHIJKLMNOPQRSTUVWXYZ'') c of
        Some C \<Rightarrow> C
      | None \<Rightarrow> c)"

definition upper :: "string \<Rightarrow> string" where
  "upper s = map upper_char s"

text \<open>\<^verbatim>\<open>s.split(sep)\<close> for a separator of one character, and \<^verbatim>\<open>sep.join(parts)\<close>.\<close>

fun split_char :: "char \<Rightarrow> string \<Rightarrow> string list" where
  "split_char sep [] = [[]]"
| "split_char sep (c # cs) =
     (if c = sep then [] # split_char sep cs
      else (case split_char sep cs of [] \<Rightarrow> [[c]] | p # ps \<Rightarrow> (c # p) # ps))"

fun join :: "string \<Rightarrow> string list \<Rightarrow> string" where
  "join sep [] = []"
| "join sep [p] = p"
| "join sep (p # ps) = p @ sep @ join sep ps"

text \<open>
  \<^verbatim>\<open>generate_uuid\<close> of \<^verbatim>\<open>sync_xcode_project.py\<close>, \<^verbatim>\<open>rebuild_xcode_project.py\<close> and
  \<^verbatim>\<open>update_xcodeproj.py\<close>, and \<^verbatim>\<open>generate_id\<close> of \<^verbatim>\<open>add_files_to_xcode.py\<close>, of
  the UUID that \<^verbatim>\<open>uuid.uuid4()\<close> returned.
\<close>

definition generate_uuid :: "128 word \<Rightarrow> string" where
  "generate_uuid u = take 24 (join [] (split_char (CHR ''-'') (upper (str_uuid u))))"

definition generate_id :: "128 word \<Rightarrow> string" where
  "generate_id u = upper (take 24 (hex32 u))"

section \<open>sync_xcode_project.py\<close>

text \<open>
  \<^verbatim>\<open>find_swift_files\<close> reads the directories; its result, the list of the pairs
  \<open>(filename, relative_path)\<close>, is what a run is given as \<open>filesystem_files\<close>.

  \<^verbatim>\<open>get_existing_files\<close>: the pattern \<^verbatim>\<open>/\* ([\w\s]+\.swift) \*/\<close>. The result is a
  Python set; here it is the list of the matches in the order of the text, and
  \<^const>\<open>remdups\<close> of it where the script iterates over the set.
\<close>

definition word_or_space :: "char \<Rightarrow> bool" where
  "word_or_space c = (is_word c \<or> is_space c)"

definition swift_comment :: "string \<Rightarrow> (string \<times> string) option" where
  "swift_comment =
     lit ''/* '' (plus word_or_space (\<lambda>g.
       lit ''.swift'' (lit '' */'' (\<lambda>rest. Some (g @ ''.swift'', rest)))))"

definition get_existing_files :: "string \<Rightarrow> string list" where
  "get_existing_files content = finditer swift_comment content"






text \<open>
  The five patterns of \<^verbatim>\<open>add_missing_files\<close> that find the list of a group or of the
  Sources build phase, as \<^verbatim>\<open>(HEAD = \{[^}]+LIST = \([^)]+)\<close>; the replacement is the
  match followed by the new line of the list. The file name is written into the
  replacement template as it is: the model is for names without a backslash.
\<close>

definition not_closing_brace :: "char \<Rightarrow> bool" where
  "not_closing_brace c = (c \<noteq> CHR ''}'')"

definition not_closing_paren :: "char \<Rightarrow> bool" where
  "not_closing_paren c = (c \<noteq> CHR '')'')"

definition list_pattern :: "string \<Rightarrow> string \<Rightarrow> string \<Rightarrow> (string \<times> string) option" where
  "list_pattern head list_key s =
     lit (head @ '' = {'') (plus not_closing_brace (\<lambda>g1.
       lit (list_key @ '' = ('') (plus not_closing_paren (\<lambda>g2 rest.
         Some (head @ '' = {'' @ g1 @ list_key @ '' = ('' @ g2, rest))))) s"

definition append_to_list :: "string \<Rightarrow> string \<Rightarrow> string \<Rightarrow> string \<Rightarrow> string" where
  "append_to_list head list_key entry content =
     re_sub (\<lambda>s. map_option (\<lambda>(m, rest). (m @ [NL, TAB, TAB, TAB, TAB] @ entry, rest))
                   (list_pattern head list_key s)) content"

definition managers_group :: string where
  "managers_group = ''B71234591234567812345678 /* Managers */''"

definition views_group :: string where
  "views_group = ''B71234571234567812345678 /* Views */''"

definition models_group :: string where
  "models_group = ''B71234581234567812345678 /* Models */''"

definition root_group :: string where
  "root_group = ''B71234561234567812345678 /* TouchGrass */''"

definition sources_phase :: string where
  "sources_phase = ''B71234551234567812345678 /* Sources */''"

definition end_file_reference :: string where
  "end_file_reference = ''/* End PBXFileReference section */''"

definition end_build_file :: string where
  "end_build_file = ''/* End PBXBuildFile section */''"

definition file_ref_entry :: "string \<Rightarrow> string \<Rightarrow> string \<Rightarrow> string" where
  "file_ref_entry file_ref name path =
     [TAB, TAB] @ file_ref @ '' /* '' @ name @
     '' */ = {isa = PBXFileReference; lastKnownFileType = sourcecode.swift; path = \"'' @ path @
     ''\"; sourceTree = \"<group>\"; };''"

definition build_ref_entry :: "string \<Rightarrow> string \<Rightarrow> string \<Rightarrow> string" where
  "build_ref_entry build_ref name file_ref =
     [TAB, TAB] @ build_ref @ '' /* '' @ name @ '' in Sources */ = {isa = PBXBuildFile; fileRef = '' @
     file_ref @ '' /* '' @ name @ '' */; };''"

text \<open>The body of the loop of \<^verbatim>\<open>add_missing_files\<close> over \<^verbatim>\<open>files_to_add\<close>.\<close>

definition add_one_file :: "string \<Rightarrow> string \<Rightarrow> string \<Rightarrow> string \<Rightarrow> string \<Rightarrow> string" where
  "add_one_file file_ref build_ref name path content =
     (let content = replace end_file_reference
                      (file_ref_entry file_ref name path @ [NL] @ end_file_reference) content;
          content = replace end_build_file
                      (build_ref_entry build_ref name file_ref @ [NL] @ end_build_file) content;
          child = file_ref @ '' /* '' @ name @ '' */,'';
          content =
            (if str_in ''Managers/'' path then append_to_list managers_group ''children'' child content
             else if str_in ''Views/'' path then append_to_list views_group ''children'' child content
             else if str_in ''Models/'' path then append_to_list models_group ''children'' child content
             else append_to_list root_group ''children'' child content)
      in append_to_list sources_phase ''files''
           (build_ref @ '' /* '' @ name @ '' in Sources */,'') content)"

text \<open>
  \<^verbatim>\<open>filesystem_dict\<close>: a dict keeps a key where it was first inserted, with the value
  inserted last.
\<close>

definition filesystem_dict :: "(string \<times> string) list \<Rightarrow> (string \<times> string) list" where
  "filesystem_dict filesystem_files =
     foldl (\<lambda>d (name, path). AList.update name path d) [] filesystem_files"

definition files_to_add :: "string \<Rightarrow> (string \<times> string) list \<Rightarrow> (string \<times> string) list" where
  "files_to_add content filesystem_files =
     filter (\<lambda>(name, path). name \<notin> set (get_existing_files content)
                              \<and> name \<noteq> ''GrassIconPreview.swift'')
       (filesystem_dict filesystem_files)"

fun add_files :: "(nat \<Rightarrow> 128 word) \<Rightarrow> nat \<Rightarrow> (string \<times> string) list \<Rightarrow> string \<Rightarrow> string" where
  "add_files uuids k [] content = content"
| "add_files uuids k ((name, path) # rest) content =
     add_files uuids (k + 2) rest
       (add_one_file (generate_uuid (uuids k)) (generate_uuid (uuids (k + 1))) name path content)"

definition add_missing_files ::
  "(nat \<Rightarrow> 128 word) \<Rightarrow> string \<Rightarrow> (string \<times> string) list \<Rightarrow> string \<times> nat" where
  "add_missing_files uuids content filesystem_files =
     (let to_add = files_to_add content filesystem_files
      in if to_add = [] then (content, 0)
         else (add_files uuids 0 to_add content, length to_add))"


section \<open>add_files_to_xcode.py\<close>

text \<open>\<^verbatim>\<open>os.path.basename\<close>: what follows the last slash.\<close>

definition basename :: "string \<Rightarrow> string" where
  "basename p = rev (takeWhile (\<lambda>c. c \<noteq> CHR ''/'') (rev p))"

text \<open>
  \<^verbatim>\<open>add_file_to_project\<close>, with the UUIDs \<open>uuids k\<close> and \<open>uuids (k + 1)\<close> for its two
  draws; the result holds the number of the next draw. The three group patterns are those
  of \<^verbatim>\<open>sync_xcode_project.py\<close>; there is no branch for the other paths.
\<close>

definition add_file_to_project ::
  "(nat \<Rightarrow> 128 word) \<Rightarrow> nat \<Rightarrow> world \<Rightarrow> string \<Rightarrow> string \<Rightarrow> error + world \<times> nat" where
  "add_file_to_project uuids k w project_path file_path =
     (let file_name = basename file_path
      in case read_file w project_path of
           Inl e \<Rightarrow> Inl e
         | Inr content \<Rightarrow>
             if str_in (''/* '' @ file_name @ '' */'') content then
               Inr (print w (Already_in_project file_name), k)
             else
               (let w = print w (Adding file_name);
                    file_ref = generate_id (uuids k);
                    build_ref = generate_id (uuids (k + 1));
                    content = replace end_file_reference
                                (file_ref_entry file_ref file_name file_path @ [NL] @ end_file_reference)
                                content;
                    content = replace end_build_file
                                (build_ref_entry build_ref file_name file_ref @ [NL] @ end_build_file)
                                content;
                    child = file_ref @ '' /* '' @ file_name @ '' */,'';
                    content =
                      (if str_in ''Managers/'' file_path then
                         append_to_list managers_group ''children'' child content
                       else if str_in ''Views/'' file_path then
                         append_to_list views_group ''children'' child content
                       else if str_in ''Models/'' file_path then
                         append_to_list models_group ''children'' child content
                       else content);
                    content = append_to_list sources_phase ''files''
                                (build_ref @ '' /* '' @ file_name @ '' in Sources */,'') content
                in Inr (print (write_file w project_path content) (Added file_name), k + 2)))"

text \<open>
  The script's main part, for the arguments \<^verbatim>\<open>sys.argv[1:]\<close>; a path exists when the
  world has a file there. Without arguments the script prints its usage and exits with
  status 1.
\<close>

fun add_loop :: "(nat \<Rightarrow> 128 word) \<Rightarrow> nat \<Rightarrow> world \<Rightarrow> string list \<Rightarrow> error + world" where
  "add_loop uuids k w [] = Inr w"
| "add_loop uuids k w (file_path # rest) =
     (if files w file_path \<noteq> None then
        (case add_file_to_project uuids k w project_file file_path of
           Inl e \<Rightarrow> Inl e
         | Inr (w', k') \<Rightarrow> add_loop uuids k' w' rest)
      else add_loop uuids k (print w (File_not_found file_path)) rest)"

definition add_main :: "(nat \<Rightarrow> 128 word) \<Rightarrow> world \<Rightarrow> string list \<Rightarrow> error + world" where
  "add_main uuids w args =
     (if args = [] then Inl (SystemExit 1) else add_loop uuids 0 w args)"

section \<open>rebuild_xcode_project.py\<close>

text \<open>
  \<^verbatim>\<open>find_all_swift_files\<close> reads the directories; its result is what a run is given as
  \<open>swift_files\<close>. \<^verbatim>\<open>file_data\<close> is a dict from the name to the path and the two identifiers,
  drawn for every pair of \<open>swift_files\<close> in turn.
\<close>

fun build_file_data ::
  "(nat \<Rightarrow> 128 word) \<Rightarrow> nat \<Rightarrow> (string \<times> string) list \<Rightarrow>
   (string \<times> string \<times> string \<times> string) list \<Rightarrow> (string \<times> string \<times> string \<times> string) list" where
  "build_file_data uuids k [] file_data = file_data"
| "build_file_data uuids k ((name, path) # rest) file_data =
     build_file_data uuids (k + 2) rest
       (AList.update name (path, generate_uuid (uuids k), generate_uuid (uuids (k + 1))) file_data)"

text \<open>
  The patterns of \<^verbatim>\<open>create_project_structure\<close> are \<^verbatim>\<open>(HEAD = \{[^}]+LIST = \([^)]*)\<close>;
  the replacement is the match, a line terminator and the new lines.
\<close>

definition list_pattern_star :: "string \<Rightarrow> string \<Rightarrow> string \<Rightarrow> (string \<times> string) option" where
  "list_pattern_star head list_key s =
     lit (head @ '' = {'') (plus not_closing_brace (\<lambda>g1.
       lit (list_key @ '' = ('') (star not_closing_paren (\<lambda>g2 rest.
         Some (head @ '' = {'' @ g1 @ list_key @ '' = ('' @ g2, rest))))) s"

definition append_lines_to_list :: "string \<Rightarrow> string \<Rightarrow> string list \<Rightarrow> string \<Rightarrow> string" where
  "append_lines_to_list head list_key refs content =
     re_sub (\<lambda>s. map_option (\<lambda>(m, rest). (m @ [NL] @ join [NL] refs, rest))
                   (list_pattern_star head list_key s)) content"

definition ref_line :: "string \<times> string \<times> string \<times> string \<Rightarrow> string" where
  "ref_line = (\<lambda>(name, path, file_ref, build_ref).
     [TAB, TAB, TAB, TAB] @ file_ref @ '' /* '' @ name @ '' */,'')"

definition create_project_structure ::
  "(nat \<Rightarrow> 128 word) \<Rightarrow> (string \<times> string) list \<Rightarrow> world \<Rightarrow> error + string" where
  "create_project_structure uuids swift_files w =
     (let file_data = build_file_data uuids 0 swift_files []
      in case read_file w project_file of
           Inl e \<Rightarrow> Inl e
         | Inr content \<Rightarrow>
             (let lines = split_char NL content;
                  new_lines = filter (\<lambda>line. \<not> (str_in ''.swift'' line
                                 \<and> list_ex (\<lambda>(name, path). str_in name line) swift_files)) lines;
                  content = join [NL] new_lines;
                  file_refs = map (\<lambda>(name, path, file_ref, build_ref).
                                file_ref_entry file_ref name path) file_data;
                  build_refs = map (\<lambda>(name, path, file_ref, build_ref).
                                build_ref_entry build_ref name file_ref) file_data;
                  content = replace end_file_reference
                              (join [NL] file_refs @ [NL] @ end_file_reference) content;
                  content = replace end_build_file
                              (join [NL] build_refs @ [NL] @ end_build_file) content;
                  managers_refs = map ref_line
                    (filter (\<lambda>(name, path, ids). str_in ''Managers/'' path) file_data);
                  views_refs = map ref_line
                    (filter (\<lambda>(name, path, ids). \<not> str_in ''Managers/'' path
                                \<and> str_in ''Views/'' path) file_data);
                  models_refs = map ref_line
                    (filter (\<lambda>(name, path, ids). \<not> str_in ''Managers/'' path
                                \<and> \<not> str_in ''Views/'' path \<and> str_in ''Models/'' path) file_data);
                  content = (if managers_refs \<noteq> [] then
                               append_lines_to_list managers_group ''children'' managers_refs content
                             else content);
                  content = (if views_refs \<noteq> [] then
                               append_lines_to_list views_group ''children'' views_refs content
                             else content);
                  content = (if models_refs \<noteq> [] then
                               append_lines_to_list models_group ''children'' models_refs content
                             else content);
                  sources_refs = map (\<lambda>(name, path, file_ref, build_ref).
                      [TAB, TAB, TAB, TAB] @ build_ref @ '' /* '' @ name @ '' in Sources */,'')
                    file_data
              in Inr (append_lines_to_list sources_phase ''files'' sources_refs content)))"

definition rebuild_main :: "(nat \<Rightarrow> 128 word) \<Rightarrow> (string \<times> string) list \<Rightarrow> world \<Rightarrow> error + world" where
  "rebuild_main uuids swift_files w =
     (case read_file w project_file of
        Inl e \<Rightarrow> Inl e
      | Inr original \<Rightarrow>
          (let w = write_file w (project_file @ ''.backup'') original
           in case create_project_structure uuids swift_files w of
                Inl e \<Rightarrow> Inl e
              | Inr new_content \<Rightarrow>
                  Inr (print (write_file w project_file new_content) Project_file_rebuilt)))"

section \<open>clean_xcode_project.py\<close>

text \<open>
  The patterns of \<^verbatim>\<open>clean_project_file\<close>. A match of the first gives the whole entry,
  its identifier and its file name; a match of the second the whole entry, its identifier,
  its file name and the identifier after \<^verbatim>\<open>fileRef = \<close>.
\<close>

definition not_star :: "char \<Rightarrow> bool" where
  "not_star c = (c \<noteq> CHR ''*'')"

definition any_char :: "char \<Rightarrow> bool" where
  "any_char c = True"

definition file_ref_pattern :: "string \<Rightarrow> ((string \<times> string \<times> string) \<times> string) option" where
  "file_ref_pattern =
     lit [TAB, TAB] (exactly 24 is_hex_upper (\<lambda>ref_id.
       lit '' /* '' (plus not_star (\<lambda>filename.
         lit '' */ = {isa = PBXFileReference;'' (plus not_closing_brace (\<lambda>g.
           lit ''};'' (\<lambda>rest.
             Some (([TAB, TAB] @ ref_id @ '' /* '' @ filename @
                    '' */ = {isa = PBXFileReference;'' @ g @ ''};'', ref_id, filename), rest))))))))"

definition build_ref_pattern ::
  "string \<Rightarrow> ((string \<times> string \<times> string \<times> string) \<times> string) option" where
  "build_ref_pattern =
     lit [TAB, TAB] (exactly 24 is_hex_upper (\<lambda>build_id.
       lit '' /* '' (plus not_star (\<lambda>filename.
         lit '' in Sources */ = {isa = PBXBuildFile; fileRef = '' (exactly 24 is_hex_upper (\<lambda>file_ref.
           plus not_closing_brace (\<lambda>g.
             lit ''};'' (\<lambda>rest.
               Some (([TAB, TAB] @ build_id @ '' /* '' @ filename @
                      '' in Sources */ = {isa = PBXBuildFile; fileRef = '' @ file_ref @ g @ ''};'',
                      build_id, filename, file_ref), rest)))))))))"

definition children_pattern :: "string \<Rightarrow> (string \<times> string) option" where
  "children_pattern =
     lit ''children = ('' (lazy_star any_char (\<lambda>g. lit '');'' (\<lambda>rest. Some (g, rest))))"

definition sources_pattern :: "string \<Rightarrow> (string \<times> string) option" where
  "sources_pattern =
     lit ''/* Sources */'' (plus not_closing_brace (\<lambda>g1.
       lit ''files = ('' (lazy_star any_char (\<lambda>g. lit '');'' (\<lambda>rest. Some (g, rest))))))"

text \<open>
  The two loops over the entries: an entry whose file name was seen before is taken out of
  the text, wherever the text has it followed by a line terminator. The matches are those
  of the text as it was before the loop.
\<close>

fun remove_duplicates :: "(string \<times> string) list \<Rightarrow> string list \<Rightarrow> string \<Rightarrow> string" where
  "remove_duplicates [] seen content = content"
| "remove_duplicates ((full_line, filename) # ms) seen content =
     (if filename \<in> set seen then remove_duplicates ms seen (replace (full_line @ [NL]) [] content)
      else remove_duplicates ms (filename # seen) content)"

text \<open>\<^verbatim>\<open>re.search(r'([A-F0-9]{24})', line)\<close>.\<close>

definition first_id :: "string \<Rightarrow> string option" where
  "first_id line = re_search (exactly 24 is_hex_upper (\<lambda>g rest. Some (g, rest))) line"

text \<open>The loop over the lines of a list, with the set of the identifiers seen.\<close>

fun cleaned_lines :: "string list \<Rightarrow> string list \<Rightarrow> string list" where
  "cleaned_lines seen [] = []"
| "cleaned_lines seen (line # lines) =
     (case first_id line of
        Some file_id \<Rightarrow>
          (if file_id \<notin> set seen then line # cleaned_lines (file_id # seen) lines
           else cleaned_lines seen lines)
      | None \<Rightarrow> line # cleaned_lines seen lines)"

text \<open>The two loops over the lists; \<open>ms\<close> are the matched list contents.\<close>

fun clean_lists :: "string list \<Rightarrow> string \<Rightarrow> string" where
  "clean_lists [] content = content"
| "clean_lists (original # ms) content =
     (let cleaned = join [NL] (cleaned_lines [] (split_char NL original))
      in clean_lists ms (if cleaned \<noteq> original then replace original cleaned content else content))"

definition clean_content :: "string \<Rightarrow> string" where
  "clean_content content =
     (let content = remove_duplicates
                      (map (\<lambda>(full_line, ref_id, filename). (full_line, filename))
                         (finditer file_ref_pattern content)) [] content;
          content = remove_duplicates
                      (map (\<lambda>(full_line, build_id, filename, file_ref). (full_line, filename))
                         (finditer build_ref_pattern content)) [] content;
          content = clean_lists (finditer children_pattern content) content
      in clean_lists (finditer sources_pattern content) content)"

definition clean_project_file :: "world \<Rightarrow> string \<Rightarrow> error + world" where
  "clean_project_file w filepath =
     (case read_file w filepath of
        Inl e \<Rightarrow> Inl e
      | Inr content \<Rightarrow> Inr (print (write_file w filepath (clean_content content)) Project_file_cleaned))"

section \<open>Auxiliary functions of the proofs\<close>



text \<open>The \<open>i\<close>-th hexadecimal digit of a UUID, from the right.\<close>

definition nibble :: "128 word \<Rightarrow> nat \<Rightarrow> nat" where
  "nibble u i = unat (take_bit 4 (drop_bit (4 * i) u))"

section \<open>Example manifests\<close>







definition manifest_ids :: string where
  "manifest_ids =
     [TAB, TAB] @ ''0123456789AB4DEF81234567 /* A.swift */ = {isa = PBXFileReference; };\<newline>'' @
     ''/* End PBXFileReference section */\<newline>'' @
     ''/* End PBXBuildFile section */\<newline>''"

definition manifest_ids_C :: string where
  "manifest_ids_C =
     [TAB, TAB] @ ''0123456789AB4DEF81234567 /* A.swift */ = {isa = PBXFileReference; };\<newline>'' @
     [TAB, TAB] @ ''0123456789AB4DEF81234567 /* C.swift */ = {isa = PBXFileReference; lastKnownFileType = sourcecode.swift; path = \"C.swift\"; sourceTree = \"<group>\"; };\<newline>'' @
     ''/* End PBXFileReference section */\<newline>'' @
     [TAB, TAB] @ ''0123456789AB4DEF81234567 /* C.swift in Sources */ = {isa = PBXBuildFile; fileRef = 0123456789AB4DEF81234567 /* C.swift */; };\<newline>'' @
     ''/* End PBXBuildFile section */\<newline>''"

definition uuid_a :: "128 word" where
  "uuid_a = 0x0123456789ab4def8123456789abcdef"

definition uuid_b :: "128 word" where
  "uuid_b = 0x0123456789ab4def8123456700000000"

definition uuids_ab :: "nat \<Rightarrow> 128 word" where
  "uuids_ab k = (if k = 0 then uuid_a else uuid_b)"

definition project_AB :: string where
  "project_AB =
     ''/* Begin PBXBuildFile section */\<newline>'' @
     [TAB, TAB] @ ''BBBBBBBBBBBBBBBBBBBBBBB1 /* A.swift in Sources */ = {isa = PBXBuildFile; fileRef = AAAAAAAAAAAAAAAAAAAAAAA1 /* A.swift */; };\<newline>'' @
     [TAB, TAB] @ ''BBBBBBBBBBBBBBBBBBBBBBB2 /* B.swift in Sources */ = {isa = PBXBuildFile; fileRef = AAAAAAAAAAAAAAAAAAAAAAA2 /* B.swift */; };\<newline>'' @
     ''/* End PBXBuildFile section */\<newline>'' @
     ''/* Begin PBXFileReference section */\<newline>'' @
     [TAB, TAB] @ ''AAAAAAAAAAAAAAAAAAAAAAA1 /* A.swift */ = {isa = PBXFileReference; path = A.swift; };\<newline>'' @
     [TAB, TAB] @ ''AAAAAAAAAAAAAAAAAAAAAAA2 /* B.swift */ = {isa = PBXFileReference; path = B.swift; };\<newline>'' @
     ''/* End PBXFileReference section */\<newline>'' @
     [TAB, TAB] @ ''B71234561234567812345678 /* TouchGrass */ = {\<newline>'' @
     [TAB, TAB, TAB] @ ''children = (\<newline>'' @
     [TAB, TAB, TAB, TAB] @ ''AAAAAAAAAAAAAAAAAAAAAAA1 /* A.swift */,\<newline>'' @
     [TAB, TAB, TAB, TAB] @ ''AAAAAAAAAAAAAAAAAAAAAAA2 /* B.swift */,\<newline>'' @
     [TAB, TAB, TAB] @ '');\<newline>'' @
     [TAB, TAB] @ ''};\<newline>'' @
     [TAB, TAB] @ ''B71234551234567812345678 /* Sources */ = {\<newline>'' @
     [TAB, TAB, TAB] @ ''files = (\<newline>'' @
     [TAB, TAB, TAB, TAB] @ ''BBBBBBBBBBBBBBBBBBBBBBB1 /* A.swift in Sources */,\<newline>'' @
     [TAB, TAB, TAB, TAB] @ ''BBBBBBBBBBBBBBBBBBBBBBB2 /* B.swift in Sources */,\<newline>'' @
     [TAB, TAB, TAB] @ '');\<newline>'' @
     [TAB, TAB] @ ''};\<newline>''"

definition project_A :: string where
  "project_A =
     ''/* Begin PBXBuildFile section */\<newline>'' @
     [TAB, TAB] @ ''BBBBBBBBBBBBBBBBBBBBBBB1 /* A.swift in Sources */ = {isa = PBXBuildFile; fileRef = AAAAAAAAAAAAAAAAAAAAAAA1 /* A.swift */; };\<newline>'' @
     ''/* End PBXBuildFile section */\<newline>'' @
     ''/* Begin PBXFileReference section */\<newline>'' @
     [TAB, TAB] @ ''AAAAAAAAAAAAAAAAAAAAAAA1 /* A.swift */ = {isa = PBXFileReference; path = A.swift; };\<newline>'' @
     ''/* End PBXFileReference section */\<newline>'' @
     [TAB, TAB] @ ''B71234561234567812345678 /* TouchGrass */ = {\<newline>'' @
     [TAB, TAB, TAB] @ ''children = (\<newline>'' @
     [TAB, TAB, TAB, TAB] @ ''AAAAAAAAAAAAAAAAAAAAAAA1 /* A.swift */,\<newline>'' @
     [TAB, TAB, TAB] @ '');\<newline>'' @
     [TAB, TAB] @ ''};\<newline>'' @
     [TAB, TAB] @ ''B71234551234567812345678 /* Sources */ = {\<newline>'' @
     [TAB, TAB, TAB] @ ''files = (\<newline>'' @
     [TAB, TAB, TAB, TAB] @ ''BBBBBBBBBBBBBBBBBBBBBBB1 /* A.swift in Sources */,\<newline>'' @
     [TAB, TAB, TAB] @ '');\<newline>'' @
     [TAB, TAB] @ ''};\<newline>''"



section \<open>Evaluation\<close>

text \<open>
  The functions above, in the form in which they are evaluated on a given text: each
  choice of an \<open>if\<close> or a \<open>case\<close> is made by a function of its own on the value chosen
  upon, so that a step of the evaluation looks at the head of the text only.
\<close>

fun strip_prefix :: "string \<Rightarrow> string \<Rightarrow> string option" where
  "strip_prefix [] s = Some s"
| "strip_prefix (x # xs) [] = None"
| "strip_prefix (x # xs) (y # ys) = (if x = y then strip_prefix xs ys else None)"

fun strip_if :: "bool \<Rightarrow> string \<Rightarrow> string \<Rightarrow> string option" where
  "strip_if True xs ys = strip_prefix xs ys"
| "strip_if False xs ys = None"

fun lit_k :: "(string \<Rightarrow> 'a option) \<Rightarrow> string option \<Rightarrow> 'a option" where
  "lit_k k None = None"
| "lit_k k (Some rest) = k rest"

fun star_r :: "'a option \<Rightarrow> (string \<Rightarrow> string \<Rightarrow> 'a option) \<Rightarrow> string \<Rightarrow> 'a option" where
  "star_r (Some r) k s = Some r"
| "star_r None k s = k [] s"

fun star_b :: "bool \<Rightarrow> (char \<Rightarrow> bool) \<Rightarrow> (string \<Rightarrow> string \<Rightarrow> 'a option) \<Rightarrow> char \<Rightarrow> string \<Rightarrow> 'a option" where
  "star_b True p k c cs = star_r (star p (\<lambda>g. k (c # g)) cs) k (c # cs)"
| "star_b False p k c cs = k [] (c # cs)"

fun plus_b :: "bool \<Rightarrow> (char \<Rightarrow> bool) \<Rightarrow> (string \<Rightarrow> string \<Rightarrow> 'a option) \<Rightarrow> char \<Rightarrow> string \<Rightarrow> 'a option" where
  "plus_b True p k c cs = star p (\<lambda>g. k (c # g)) cs"
| "plus_b False p k c cs = None"

fun lazy_b :: "bool \<Rightarrow> (char \<Rightarrow> bool) \<Rightarrow> (string \<Rightarrow> string \<Rightarrow> 'a option) \<Rightarrow> char \<Rightarrow> string \<Rightarrow> 'a option" where
  "lazy_b True p k c cs = lazy_star p (\<lambda>g. k (c # g)) cs"
| "lazy_b False p k c cs = None"

fun lazy_r :: "'a option \<Rightarrow> (char \<Rightarrow> bool) \<Rightarrow> (string \<Rightarrow> string \<Rightarrow> 'a option) \<Rightarrow> char \<Rightarrow> string \<Rightarrow> 'a option" where
  "lazy_r (Some r) p k c cs = Some r"
| "lazy_r None p k c cs = lazy_b (p c) p k c cs"

fun exactly_b :: "bool \<Rightarrow> nat \<Rightarrow> (char \<Rightarrow> bool) \<Rightarrow> (string \<Rightarrow> string \<Rightarrow> 'a option) \<Rightarrow> char \<Rightarrow> string \<Rightarrow> 'a option" where
  "exactly_b True n p k c cs = exactly n p (\<lambda>g. k (c # g)) cs"
| "exactly_b False n p k c cs = None"

fun opt_r :: "'a option \<Rightarrow> (string \<Rightarrow> 'a option) \<Rightarrow> string \<Rightarrow> 'a option" where
  "opt_r (Some r) k s = Some r"
| "opt_r None k s = k s"

fun opt_b :: "bool \<Rightarrow> (string \<Rightarrow> 'a option) \<Rightarrow> char \<Rightarrow> string \<Rightarrow> 'a option" where
  "opt_b True k d ds = opt_r (k ds) k (d # ds)"
| "opt_b False k d ds = k (d # ds)"

fun finditer_nil :: "('a \<times> string) option \<Rightarrow> 'a list" where
  "finditer_nil None = []"
| "finditer_nil (Some (x, rest)) = [x]"

fun finditer_next :: "bool \<Rightarrow> (string \<Rightarrow> ('a \<times> string) option) \<Rightarrow> string \<Rightarrow> string \<Rightarrow> 'a list" where
  "finditer_next True m rest cs = finditer m rest"
| "finditer_next False m rest cs = finditer m cs"

fun finditer_r :: "('a \<times> string) option \<Rightarrow> (string \<Rightarrow> ('a \<times> string) option) \<Rightarrow> char \<Rightarrow> string \<Rightarrow> 'a list" where
  "finditer_r None m c cs = finditer m cs"
| "finditer_r (Some (x, rest)) m c cs = x # finditer_next (length rest < length (c # cs)) m rest cs"

fun re_sub_nil :: "(string \<times> string) option \<Rightarrow> string" where
  "re_sub_nil None = []"
| "re_sub_nil (Some (r, rest)) = r"

fun re_sub_next :: "bool \<Rightarrow> (string \<Rightarrow> (string \<times> string) option) \<Rightarrow> string \<Rightarrow> char \<Rightarrow> string \<Rightarrow> string" where
  "re_sub_next True m rest c cs = re_sub m rest"
| "re_sub_next False m rest c cs = c # re_sub m cs"

fun re_sub_r :: "(string \<times> string) option \<Rightarrow> (string \<Rightarrow> (string \<times> string) option) \<Rightarrow> char \<Rightarrow> string \<Rightarrow> string" where
  "re_sub_r None m c cs = c # re_sub m cs"
| "re_sub_r (Some (r, rest)) m c cs = r @ re_sub_next (length rest < length (c # cs)) m rest c cs"

fun re_search_r :: "('a \<times> string) option \<Rightarrow> (string \<Rightarrow> ('a \<times> string) option) \<Rightarrow> string \<Rightarrow> 'a option" where
  "re_search_r None m cs = re_search m cs"
| "re_search_r (Some (x, rest)) m cs = Some x"

fun add_char :: "bool \<Rightarrow> char \<Rightarrow> string list \<Rightarrow> string list" where
  "add_char True c ls = [c] # ls"
| "add_char False c [] = [[c]]"
| "add_char False c (l # ls) = (c # l) # ls"

fun add_part :: "bool \<Rightarrow> char \<Rightarrow> string list \<Rightarrow> string list" where
  "add_part True c ps = [] # ps"
| "add_part False c [] = [[c]]"
| "add_part False c (p # ps) = (c # p) # ps"

fun count_removed :: "string list \<times> nat \<Rightarrow> string list \<times> nat" where
  "count_removed (kept, removed_count) = (kept, Suc removed_count)"

fun keep_line :: "string \<Rightarrow> string list \<times> nat \<Rightarrow> string list \<times> nat" where
  "keep_line line (kept, removed_count) = (line # kept, removed_count)"

fun filter_lines_b :: "bool \<Rightarrow> bool \<Rightarrow> bool \<Rightarrow> bool \<Rightarrow> string \<Rightarrow> string \<Rightarrow> string list \<Rightarrow> string list \<times> nat" where
  "filter_lines_b True opens closes skip_next file_name line lines =
     count_removed (filter_lines file_name (opens \<or> skip_next) lines)"
| "filter_lines_b False opens closes True file_name line lines =
     filter_lines file_name (\<not> closes) lines"
| "filter_lines_b False opens closes False file_name line lines =
     keep_line line (filter_lines file_name False lines)"

section \<open>The equations of the evaluation\<close>

lemma strip_prefix_eq:
  "strip_prefix l s = (if prefix l s then Some (drop (length l) s) else None)"
  by (induction l s rule: strip_prefix.induct) auto

lemma strip_prefix_code [code]:
  "strip_prefix [] s = Some s"
  "strip_prefix (x # xs) [] = None"
  "strip_prefix (x # xs) (y # ys) = strip_if (x = y) xs ys"
  by simp_all

lemma lit_code [code]: "lit l k s = lit_k k (strip_prefix l s)"
  by (simp add: lit_def strip_prefix_eq)

lemma star_code [code]:
  "star p k [] = k [] []"
  "star p k (c # cs) = star_b (p c) p k c cs"
  by (auto split: option.splits)

lemma plus_code [code]:
  "plus p k [] = None"
  "plus p k (c # cs) = plus_b (p c) p k c cs"
  by (simp_all add: plus_def)

lemma lazy_star_code [code]:
  "lazy_star p k [] = k [] []"
  "lazy_star p k (c # cs) = lazy_r (k [] (c # cs)) p k c cs"
  by (auto split: option.splits)

lemma exactly_code [code]:
  "exactly 0 p k s = k [] s"
  "exactly (Suc n) p k [] = None"
  "exactly (Suc n) p k (c # cs) = exactly_b (p c) n p k c cs"
  by simp_all

lemma opt_code [code]:
  "opt c k [] = k []"
  "opt c k (d # ds) = opt_b (d = c) k d ds"
  by (auto simp: opt_def split: option.splits)

lemma finditer_code [code]:
  "finditer m [] = finditer_nil (m [])"
  "finditer m (c # cs) = finditer_r (m (c # cs)) m c cs"
  by (auto split: option.splits)

lemma re_sub_code [code]:
  "re_sub m [] = re_sub_nil (m [])"
  "re_sub m (c # cs) = re_sub_r (m (c # cs)) m c cs"
  by (auto split: option.splits)

lemma re_search_code [code]:
  "re_search m [] = map_option fst (m [])"
  "re_search m (c # cs) = re_search_r (m (c # cs)) m cs"
  by (auto split: option.splits)

lemma readlines_code [code]:
  "readlines [] = []"
  "readlines (c # cs) = add_char (c = NL) c (readlines cs)"
  by (auto split: list.splits)

lemma split_char_code [code]:
  "split_char sep [] = [[]]"
  "split_char sep (c # cs) = add_part (c = sep) c (split_char sep cs)"
  by (auto split: list.splits)

lemma count_removed_eq: "count_removed p = (fst p, Suc (snd p))"
  by (cases p) simp

lemma keep_line_eq: "keep_line line p = (line # fst p, snd p)"
  by (cases p) simp

lemma filter_lines_code [code]:
  "filter_lines file_name skip_next [] = ([], 0)"
  "filter_lines file_name skip_next (line # lines) =
     filter_lines_b (str_in file_name line) (CHR ''{'' \<in> set line \<and> CHR ''}'' \<notin> set line)
       (CHR ''}'' \<in> set line) skip_next file_name line lines"
proof -
  show "filter_lines file_name skip_next [] = ([], 0)" by simp
  show "filter_lines file_name skip_next (line # lines) =
     filter_lines_b (str_in file_name line) (CHR ''{'' \<in> set line \<and> CHR ''}'' \<notin> set line)
       (CHR ''}'' \<in> set line) skip_next file_name line lines"
  proof (cases "str_in file_name line")
    case True
    then show ?thesis
      by (cases "CHR ''{'' \<in> set line"; cases "CHR ''}'' \<in> set line")
        (simp_all add: split_beta count_removed_eq)
  next
    case False
    then show ?thesis
      by (cases skip_next) (simp_all add: split_beta keep_line_eq)
  qed
qed

section \<open>Facts about text\<close>



lemma readlines_Nil_iff: "readlines s = [] \<longleftrightarrow> s = []"
  by (cases s) (auto split: list.splits)













































lemma join_Nil: "join [] ps = concat ps"
  by (induction "[]::string" ps rule: join.induct) auto

lemma join_split_char: "join [] (split_char c s) = filter (\<lambda>d. d \<noteq> c) s"
  unfolding join_Nil by (induction s) (auto split: list.splits)

lemma split_char_nonempty: "split_char c s \<noteq> []"
  by (induction s) (auto split: list.splits)

lemma hex_digits_upper:
  "list_all (\<lambda>d. is_hex_upper (upper_char (hex_digit d)) \<and> upper_char (hex_digit d) \<noteq> CHR ''-'') [0..<16]"
  by code_simp

lemma hex_digits_distinct: "distinct (map (\<lambda>d. upper_char (hex_digit d)) [0..<16])"
  by code_simp


lemma nibble_less: "nibble u i < 16"
proof -
  have "unat (take_bit 4 (drop_bit (4 * i) u)) = take_bit 4 (unat (drop_bit (4 * i) u))"
    by (rule unsigned_take_bit_eq)
  moreover have "take_bit 4 (unat (drop_bit (4 * i) u)) < 2 ^ 4"
    by (rule take_bit_nat_less_exp)
  ultimately show ?thesis by (simp add: nibble_def)
qed

lemma hex_char_inj:
  assumes "a < 16" and "b < 16" and "upper_char (hex_digit a) = upper_char (hex_digit b)"
  shows "a = b"
proof -
  have "inj_on (\<lambda>d. upper_char (hex_digit d)) (set [0..<16])"
    using hex_digits_distinct by (simp add: distinct_map)
  then show ?thesis using assms by (auto dest: inj_onD)
qed

lemma hex_char_class:
  assumes "a < 16"
  shows "is_hex_upper (upper_char (hex_digit a))" and "upper_char (hex_digit a) \<noteq> CHR ''-''"
  using hex_digits_upper assms by (auto simp: list_all_iff)

lemma nibble_eq_iff:
  "nibble u i = nibble v i \<longleftrightarrow> (\<forall>j<4. bit u (4 * i + j) = bit v (4 * i + j))"
proof -
  have "nibble u i = nibble v i \<longleftrightarrow>
          take_bit 4 (drop_bit (4 * i) u) = take_bit 4 (drop_bit (4 * i) v)"
    by (simp add: nibble_def word_unat_eq_iff)
  also have "\<dots> \<longleftrightarrow> (\<forall>j<4. bit u (4 * i + j) = bit v (4 * i + j))" (is "?L \<longleftrightarrow> ?R")
  proof
    assume ?L
    then have "bit (take_bit 4 (drop_bit (4 * i) u)) j = bit (take_bit 4 (drop_bit (4 * i) v)) j" for j
      by simp
    then have "(j < 4 \<and> bit u (4 * i + j)) = (j < 4 \<and> bit v (4 * i + j))" for j
      by (simp add: bit_take_bit_iff bit_drop_bit_eq)
    then show ?R by blast
  next
    assume r: ?R
    show ?L
      by (rule bit_eqI) (use r in \<open>auto simp: bit_take_bit_iff bit_drop_bit_eq\<close>)
  qed
  finally show ?thesis .
qed

lemma take_rev_upt: "take 24 (rev [0..<32]) = rev [8..<32]"
  by (simp add: take_rev upt_conv_Cons [symmetric] drop_upt del: upt_Suc)

lemma generate_id_map: "generate_id u = map (\<lambda>i. upper_char (hex_digit (nibble u i))) (rev [8..<32])"
proof -
  have "generate_id u = map upper_char (map (\<lambda>i. hex_digit (nibble u i)) (take 24 (rev [0..<32])))"
    by (simp add: generate_id_def upper_def hex32_def nibble_def take_map)
  then show ?thesis by (simp add: take_rev_upt comp_def)
qed

lemma generate_id_eq_iff: "generate_id u = generate_id v \<longleftrightarrow> drop_bit 32 u = drop_bit 32 v"
proof -
  have "generate_id u = generate_id v \<longleftrightarrow>
          (\<forall>i\<in>set (rev [8..<32]). upper_char (hex_digit (nibble u i)) = upper_char (hex_digit (nibble v i)))"
    unfolding generate_id_map by (rule map_eq_conv)
  also have "set (rev [8..<32]) = {8..<32::nat}"
    by (simp only: set_rev set_upt)
  also have "(\<forall>i\<in>{8..<32}. upper_char (hex_digit (nibble u i)) = upper_char (hex_digit (nibble v i)))
          \<longleftrightarrow> (\<forall>i\<in>{8..<32}. nibble u i = nibble v i)"
    using hex_char_inj [OF nibble_less nibble_less] by metis
  also have "\<dots> \<longleftrightarrow> (\<forall>i\<in>{8..<32}. \<forall>j<4. bit u (4 * i + j) = bit v (4 * i + j))"
    by (simp add: nibble_eq_iff)
  also have "\<dots> \<longleftrightarrow> drop_bit 32 u = drop_bit 32 v" (is "?L \<longleftrightarrow> ?R")
  proof
    assume l: ?L
    show ?R
    proof (rule bit_eqI)
      fix n
      assume "possible_bit TYPE(128 word) n"
      show "bit (drop_bit 32 u) n = bit (drop_bit 32 v) n"
      proof (cases "n < 96")
        case True
        define i where "i = (32 + n) div 4"
        define j where "j = (32 + n) mod 4"
        have "i \<in> {8..<32}" "j < 4" "32 + n = 4 * i + j"
          using True by (auto simp: i_def j_def)
        with l have "bit u (4 * i + j) = bit v (4 * i + j)" by blast
        with \<open>32 + n = 4 * i + j\<close> have "bit u (32 + n) = bit v (32 + n)" by simp
        then show ?thesis by (simp add: bit_drop_bit_eq)
      next
        case False
        then have "\<not> bit u (32 + n)" "\<not> bit v (32 + n)"
          by (auto dest: bit_imp_le_length)
        then show ?thesis by (simp add: bit_drop_bit_eq)
      qed
    qed
  next
    assume r: ?R
    show ?L
    proof (intro ballI allI impI)
      fix i j :: nat
      assume "i \<in> {8..<32}" and "j < 4"
      define n where "n = 4 * i + j - 32"
      have n: "4 * i + j = 32 + n"
        using \<open>i \<in> {8..<32}\<close> by (simp add: n_def)
      from r have "bit (drop_bit 32 u) n = bit (drop_bit 32 v) n" by simp
      then show "bit u (4 * i + j) = bit v (4 * i + j)"
        by (simp add: bit_drop_bit_eq n)
    qed
  qed
  finally show ?thesis .
qed

lemma upper_hex32_class:
  "c \<in> set (upper (hex32 u)) \<Longrightarrow> is_hex_upper c \<and> c \<noteq> CHR ''-''"
  using hex_char_class [OF nibble_less]
  by (auto simp: upper_def hex32_def nibble_def)

lemma upper_dash: "upper_char (CHR ''-'') = CHR ''-''"
  by code_simp

lemma regroup:
  "take 8 h @ take 4 (drop 8 h) @ take 4 (drop 12 h) @ take 4 (drop 16 h) @ drop 20 h = h"
  using append_take_drop_id [of 4 "drop 16 h"] append_take_drop_id [of 4 "drop 12 h"]
    append_take_drop_id [of 4 "drop 8 h"] append_take_drop_id [of 8 h]
  by simp

lemma generate_uuid_eq_generate_id: "generate_uuid u = generate_id u"
proof -
  define H where "H = upper (hex32 u)"
  have nd: "filter (\<lambda>d. d \<noteq> CHR ''-'') xs = xs" if "set xs \<subseteq> set H" for xs
    using that upper_hex32_class [of _ u] by (auto simp: H_def filter_id_conv)
  have up: "upper (str_uuid u) =
      take 8 H @ ''-'' @ take 4 (drop 8 H) @ ''-'' @ take 4 (drop 12 H) @ ''-'' @
      take 4 (drop 16 H) @ ''-'' @ drop 20 H"
    by (simp add: str_uuid_def upper_def H_def Let_def take_map drop_map upper_dash)
  have "filter (\<lambda>d. d \<noteq> CHR ''-'') (upper (str_uuid u)) =
      take 8 H @ take 4 (drop 8 H) @ take 4 (drop 12 H) @ take 4 (drop 16 H) @ drop 20 H"
    unfolding up
    by (simp add: nd set_take_subset set_drop_subset
        order_trans [OF set_take_subset set_drop_subset])
  then have "filter (\<lambda>d. d \<noteq> CHR ''-'') (upper (str_uuid u)) = H"
    by (simp only: regroup)
  then show ?thesis
    by (simp add: generate_uuid_def generate_id_def join_split_char H_def upper_def take_map)
qed

lemma generate_id_length: "length (generate_id u) = 24"
  by (simp add: generate_id_map)

lemma generate_id_class: "list_all is_hex_upper (generate_id u)"
  using hex_char_class(1) [OF nibble_less]
  by (simp add: generate_id_map list_all_iff)

lemma re_sub_no_match: "(\<And>t. m t = None) \<Longrightarrow> re_sub m s = s"
  by (induction s) auto

lemma str_in_Cons: "str_in n cs \<Longrightarrow> str_in n (c # cs)"
  by simp

lemma str_in_prefix: "prefix n s \<Longrightarrow> str_in n s"
  by (cases s) auto





section \<open>Removing files by name\<close>



section \<open>Removal is by substring\<close>



section \<open>Identifiers are not checked\<close>

text \<open>
  The identifiers of a run are not kept apart by the generator: two different version 4
  UUIDs give the same identifier, which the manifest already has for another file, and
  \<^verbatim>\<open>add_missing_files\<close> writes it as the identifier of the new FileReference and of the
  new BuildFileEntry.
\<close>

theorem generated_identifier_collides:
  "is_uuid4 uuid_a \<and> is_uuid4 uuid_b \<and> uuid_a \<noteq> uuid_b
   \<and> generate_uuid uuid_a = ''0123456789AB4DEF81234567''
   \<and> generate_uuid uuid_b = ''0123456789AB4DEF81234567''
   \<and> generate_id uuid_a = generate_id uuid_b
   \<and> str_in ''0123456789AB4DEF81234567'' manifest_ids
   \<and> add_missing_files uuids_ab manifest_ids [(''C.swift'', ''C.swift'')] = (manifest_ids_C, 1)"
proof -
  have 1: "is_uuid4 uuid_a" "is_uuid4 uuid_b" "uuid_a \<noteq> uuid_b"
    by (simp_all add: is_uuid4_def uuid_a_def uuid_b_def)
  have 2: "generate_uuid uuid_a = ''0123456789AB4DEF81234567''" by code_simp
  have 3: "generate_uuid uuid_b = ''0123456789AB4DEF81234567''" by code_simp
  have 4: "generate_id uuid_a = generate_id uuid_b"
    using 2 3 by (simp add: generate_uuid_eq_generate_id)
  have 5: "str_in ''0123456789AB4DEF81234567'' manifest_ids" by code_simp
  have 6: "add_missing_files uuids_ab manifest_ids [(''C.swift'', ''C.swift'')] = (manifest_ids_C, 1)"
    by code_simp
  from 1 2 3 4 5 6 show ?thesis by blast
qed

text \<open>
  C5, amended. An identifier is the first 24 hexadecimal digits, in upper case, of the UUID
  that was drawn, and nothing else: \<^verbatim>\<open>generate_uuid\<close> and \<^verbatim>\<open>generate_id\<close> are the same
  function of the draw, they look neither at the manifest nor at the identifiers drawn
  before, and two draws give the same identifier exactly when they agree on their
  leading 96 bits.
\<close>

theorem identifier_is_function_of_draw:
  "generate_uuid u = generate_id u
   \<and> length (generate_uuid u) = 24
   \<and> list_all is_hex_upper (generate_uuid u)
   \<and> (generate_uuid u = generate_uuid v \<longleftrightarrow> drop_bit 32 u = drop_bit 32 v)"
  by (simp add: generate_uuid_eq_generate_id generate_id_length generate_id_class
      generate_id_eq_iff)

section \<open>A missing sentinel\<close>




end
